theory Spec2Isabelle
  imports Complex_Main
begin

section \<open>Values of the geometry module\<close>

text \<open>
  The module \<^verbatim>\<open>src/hotpot/geometry/primiary.py\<close> computes on one-dimensional numeric
  arrays.  An array is modelled by the container that holds it (a Python list, a numpy
  \<^verbatim>\<open>ndarray\<close> or a tensorflow tensor) and by the list of its elements; the type of the
  elements is a parameter.  Two element types are used.

  \<^item> The real numbers, where a property is about which arithmetic expression the code
    computes.  There the floating-point operations are the exact ones, with two
    exceptions that are parameters of the model: the conversion to \<^verbatim>\<open>float32\<close> in
    \<^verbatim>\<open>_convert_type_if_not_nparray\<close>, and the rounding of every operation of the
    spherical conversions.
  \<^item> The type \<open>ieee\<close> of finite numbers, the two infinities and not-a-number, where a
    property is about division by zero.

  Exceptions are values of type \<open>error\<close>; a computation that raises returns \<open>Inl\<close>.
\<close>

datatype error = AttributeError | IndexError | TypeError | ValueError | InvalidArgumentError

datatype container = PyList | NdArray | Tensor

datatype 'a arr = Arr (kind: container) (elems: "'a list")

datatype matrix = Mat (mkind: container) (mrows: "real list list")

text \<open>The two classes of coordinate triples: \<^verbatim>\<open>class Vector(Cartesian3)\<close>.\<close>

datatype pyclass = Cartesian3 | Vector

datatype 'a cartesian3 = Instance (cls: pyclass) (xc: "'a arr") (yc: "'a arr") (zc: "'a arr")

text \<open>Sequencing of computations that may raise: the first exception is the result.\<close>

fun and_then :: "error + 'a \<Rightarrow> ('a \<Rightarrow> error + 'b) \<Rightarrow> error + 'b" where
  "and_then (Inl e) f = Inl e"
| "and_then (Inr v) f = f v"

section \<open>Floating-point values with infinities\<close>

text \<open>
  A \<^verbatim>\<open>float64\<close> value as far as division by zero needs it: a finite number, plus or
  minus infinity, or not-a-number.  The sign of a zero is not part of the value; a zero
  divisor counts as \<open>+0\<close>, which is what the square root of a sum of squares returns
  (for a divisor \<open>-0\<close> the code returns the infinity of the other sign).  The operations
  are the IEEE ones on special values and exact on finite ones; rounding, overflow and
  underflow enter through the rounding function that \<open>norm\<close> and \<open>unit\<close> below take.
\<close>

datatype ieee = Finite real | PInf | NInf | NaN

fun is_finite :: "ieee \<Rightarrow> bool" where
  "is_finite (Finite a) = True"
| "is_finite v = False"

instantiation ieee :: plus
begin

fun plus_ieee :: "ieee \<Rightarrow> ieee \<Rightarrow> ieee" where
  "plus_ieee NaN v = NaN"
| "plus_ieee v NaN = NaN"
| "plus_ieee (Finite a) (Finite b) = Finite (a + b)"
| "plus_ieee PInf NInf = NaN"
| "plus_ieee NInf PInf = NaN"
| "plus_ieee PInf v = PInf"
| "plus_ieee v PInf = PInf"
| "plus_ieee NInf v = NInf"
| "plus_ieee v NInf = NInf"

instance ..

end

instantiation ieee :: times
begin

fun times_ieee :: "ieee \<Rightarrow> ieee \<Rightarrow> ieee" where
  "times_ieee NaN v = NaN"
| "times_ieee v NaN = NaN"
| "times_ieee (Finite a) (Finite b) = Finite (a * b)"
| "times_ieee (Finite a) PInf = (if a = 0 then NaN else if 0 < a then PInf else NInf)"
| "times_ieee (Finite a) NInf = (if a = 0 then NaN else if 0 < a then NInf else PInf)"
| "times_ieee PInf (Finite b) = (if b = 0 then NaN else if 0 < b then PInf else NInf)"
| "times_ieee NInf (Finite b) = (if b = 0 then NaN else if 0 < b then NInf else PInf)"
| "times_ieee PInf PInf = PInf"
| "times_ieee NInf NInf = PInf"
| "times_ieee PInf NInf = NInf"
| "times_ieee NInf PInf = NInf"

instance ..

end

instantiation ieee :: divide
begin

fun divide_ieee :: "ieee \<Rightarrow> ieee \<Rightarrow> ieee" where
  "divide_ieee NaN v = NaN"
| "divide_ieee v NaN = NaN"
| "divide_ieee (Finite a) (Finite b) =
     (if b \<noteq> 0 then Finite (a / b)
      else if a = 0 then NaN else if 0 < a then PInf else NInf)"
| "divide_ieee (Finite a) v = Finite 0"
| "divide_ieee PInf (Finite b) = (if 0 \<le> b then PInf else NInf)"
| "divide_ieee NInf (Finite b) = (if 0 \<le> b then NInf else PInf)"
| "divide_ieee v w = NaN"

instance ..

end

instantiation ieee :: inverse
begin

definition inverse_ieee :: "ieee \<Rightarrow> ieee" where
  "inverse_ieee v = divide (Finite 1) v"

instance ..

end

text \<open>\<^verbatim>\<open>tf.sqrt\<close> of one value.\<close>

fun ieee_sqrt :: "ieee \<Rightarrow> ieee" where
  "ieee_sqrt (Finite a) = (if 0 \<le> a then Finite (sqrt a) else NaN)"
| "ieee_sqrt PInf = PInf"
| "ieee_sqrt v = NaN"

section \<open>Array operations of numpy, tensorflow and Python\<close>

text \<open>
  Elementwise binary operations broadcast: two one-dimensional arrays combine when their
  lengths agree or when one of them has length 1, whose single element is then paired with
  every element of the other.
\<close>

definition broadcast :: "('a \<Rightarrow> 'a \<Rightarrow> 'a) \<Rightarrow> 'a list \<Rightarrow> 'a list \<Rightarrow> 'a list option" where
  "broadcast f as bs =
     (if length as = length bs then Some (map2 f as bs)
      else if length as = 1 then Some (map (f (hd as)) bs)
      else if length bs = 1 then Some (map (\<lambda>a. f a (hd bs)) as)
      else None)"

text \<open>A numpy ufunc (\<^verbatim>\<open>np.add\<close>, \<^verbatim>\<open>np.subtract\<close>, \<^verbatim>\<open>np.divide\<close>) takes any
  array-like, returns an \<^verbatim>\<open>ndarray\<close> and raises \<^verbatim>\<open>ValueError\<close> when the operands
  cannot be broadcast together.\<close>

definition np_ufunc :: "('a \<Rightarrow> 'a \<Rightarrow> 'a) \<Rightarrow> 'a arr \<Rightarrow> 'a arr \<Rightarrow> error + 'a arr" where
  "np_ufunc f a b =
     (case broadcast f (elems a) (elems b) of
        None \<Rightarrow> Inl ValueError
      | Some v \<Rightarrow> Inr (Arr NdArray v))"

definition np_add :: "real arr \<Rightarrow> real arr \<Rightarrow> error + real arr" where
  "np_add = np_ufunc (+)"

definition np_subtract :: "real arr \<Rightarrow> real arr \<Rightarrow> error + real arr" where
  "np_subtract = np_ufunc (-)"

definition np_divide :: "('a::inverse) arr \<Rightarrow> 'a arr \<Rightarrow> error + 'a arr" where
  "np_divide = np_ufunc (/)"

text \<open>A tensorflow elementwise operation returns a tensor and raises
  \<^verbatim>\<open>InvalidArgumentError\<close> on incompatible shapes.\<close>

definition tf_binop :: "('a \<Rightarrow> 'a \<Rightarrow> 'a) \<Rightarrow> 'a arr \<Rightarrow> 'a arr \<Rightarrow> error + 'a arr" where
  "tf_binop f a b =
     (case broadcast f (elems a) (elems b) of
        None \<Rightarrow> Inl InvalidArgumentError
      | Some v \<Rightarrow> Inr (Arr Tensor v))"

text \<open>
  The Python operators \<^verbatim>\<open>*\<close>, \<^verbatim>\<open>/\<close>, \<^verbatim>\<open>-\<close> between two arrays: a tensor operand
  takes the operation (its \<^verbatim>\<open>__array_priority__\<close> makes an \<^verbatim>\<open>ndarray\<close> defer to it),
  otherwise an \<^verbatim>\<open>ndarray\<close> operand does, and two Python lists raise \<^verbatim>\<open>TypeError\<close>.
  (\<^verbatim>\<open>+\<close> on two Python lists would concatenate; the module never adds two arrays that
  can both be lists.)
\<close>

definition py_binop :: "('a \<Rightarrow> 'a \<Rightarrow> 'a) \<Rightarrow> 'a arr \<Rightarrow> 'a arr \<Rightarrow> error + 'a arr" where
  "py_binop f a b =
     (if kind a = Tensor \<or> kind b = Tensor then tf_binop f a b
      else if kind a = NdArray \<or> kind b = NdArray then np_ufunc f a b
      else Inl TypeError)"

text \<open>A Python operator between an array and a number.\<close>

definition py_scalar_op :: "('a \<Rightarrow> 'a \<Rightarrow> 'a) \<Rightarrow> 'a arr \<Rightarrow> 'a \<Rightarrow> error + 'a arr" where
  "py_scalar_op f a s =
     (case kind a of
        PyList \<Rightarrow> Inl TypeError
      | NdArray \<Rightarrow> Inr (Arr NdArray (map (\<lambda>v. f v s) (elems a)))
      | Tensor \<Rightarrow> Inr (Arr Tensor (map (\<lambda>v. f v s) (elems a))))"

text \<open>\<^verbatim>\<open>tf.convert_to_tensor(a, dtype=tf.float64)\<close> and \<^verbatim>\<open>tf.constant(a)\<close>.\<close>

definition convert_to_tensor :: "'a arr \<Rightarrow> 'a arr" where
  "convert_to_tensor a = Arr Tensor (elems a)"

text \<open>A unary tensorflow function applies elementwise and returns a tensor.\<close>

definition tf_map :: "('a \<Rightarrow> 'a) \<Rightarrow> 'a arr \<Rightarrow> 'a arr" where
  "tf_map f a = Arr Tensor (map f (elems a))"

text \<open>\<^verbatim>\<open>tf.stack([x, y, z], axis=0)\<close>: the three inputs must have one shape.\<close>

definition tf_stack :: "real arr \<Rightarrow> real arr \<Rightarrow> real arr \<Rightarrow> error + matrix" where
  "tf_stack a b c =
     (if length (elems a) = length (elems b) \<and> length (elems b) = length (elems c)
      then Inr (Mat Tensor [elems a, elems b, elems c])
      else Inl InvalidArgumentError)"

section \<open>Cartesian3 and Vector\<close>

text \<open>
  \<^verbatim>\<open>_convert_type_if_not_nparray\<close> (lines 14--18).  What is not an \<^verbatim>\<open>ndarray\<close> becomes
  one through \<^verbatim>\<open>np.array(an_array, dtype=np.float32)\<close>, which converts every element to
  \<^verbatim>\<open>float32\<close>.  That conversion of one number is the parameter \<open>float32\<close>: the model
  assumes nothing about it (in the code it rounds to 24 significant bits).
\<close>

definition convert_type_if_not_nparray :: "('a \<Rightarrow> 'a) \<Rightarrow> 'a arr \<Rightarrow> 'a arr" where
  "convert_type_if_not_nparray float32 an_array =
     (if kind an_array \<noteq> NdArray then Arr NdArray (map float32 (elems an_array))
      else an_array)"

text \<open>\<^verbatim>\<open>Cartesian3.__init__\<close> (lines 22--25) and \<^verbatim>\<open>Vector.__init__\<close> (lines 305--310).\<close>

definition Cartesian3_init :: "'a arr \<Rightarrow> 'a arr \<Rightarrow> 'a arr \<Rightarrow> 'a cartesian3" where
  "Cartesian3_init x y z = Instance Cartesian3 x y z"

definition Vector_init :: "'a arr \<Rightarrow> 'a arr \<Rightarrow> 'a arr \<Rightarrow> 'a cartesian3" where
  "Vector_init x y z =
     Instance Vector (convert_to_tensor x) (convert_to_tensor y) (convert_to_tensor z)"

text \<open>Calling a class object runs the \<^verbatim>\<open>__init__\<close> of that class.\<close>

definition construct :: "pyclass \<Rightarrow> 'a arr \<Rightarrow> 'a arr \<Rightarrow> 'a arr \<Rightarrow> 'a cartesian3" where
  "construct c x y z =
     (case c of Cartesian3 \<Rightarrow> Cartesian3_init x y z | Vector \<Rightarrow> Vector_init x y z)"

text \<open>\<^verbatim>\<open>fmap\<close> (lines 27--32): the keyword arguments are evaluated in the order x, y, z,
  then \<^verbatim>\<open>self.__class__\<close> is called.\<close>

definition fmap :: "'a cartesian3 \<Rightarrow> ('a arr \<Rightarrow> error + 'a arr) \<Rightarrow> error + 'a cartesian3" where
  "fmap self func =
     and_then (func (xc self)) (\<lambda>x.
     and_then (func (yc self)) (\<lambda>y.
     and_then (func (zc self)) (\<lambda>z.
     Inr (construct (cls self) x y z))))"

text \<open>\<^verbatim>\<open>from_xyz\<close> (lines 47--49), a static method of \<^verbatim>\<open>Cartesian3\<close>.\<close>

definition from_xyz :: "('a \<Rightarrow> 'a) \<Rightarrow> 'a arr \<Rightarrow> 'a arr \<Rightarrow> 'a arr \<Rightarrow> error + 'a cartesian3" where
  "from_xyz float32 x y z =
     fmap (Cartesian3_init x y z) (\<lambda>a. Inr (convert_type_if_not_nparray float32 a))"

text \<open>\<^verbatim>\<open>self.__class__.from_xyz\<close>: \<^verbatim>\<open>Vector\<close> does not override the static method, so
  the lookup finds the one of \<^verbatim>\<open>Cartesian3\<close> for either class.\<close>

definition class_from_xyz ::
    "('a \<Rightarrow> 'a) \<Rightarrow> pyclass \<Rightarrow> 'a arr \<Rightarrow> 'a arr \<Rightarrow> 'a arr \<Rightarrow> error + 'a cartesian3" where
  "class_from_xyz float32 c =
     (case c of Cartesian3 \<Rightarrow> from_xyz float32 | Vector \<Rightarrow> from_xyz float32)"

text \<open>\<^verbatim>\<open>op_zip\<close> (lines 40--45).\<close>

definition op_zip ::
    "('a \<Rightarrow> 'a) \<Rightarrow> 'a cartesian3 \<Rightarrow> 'a cartesian3 \<Rightarrow> ('a arr \<Rightarrow> 'a arr \<Rightarrow> error + 'a arr) \<Rightarrow>
     error + 'a cartesian3" where
  "op_zip float32 self other op =
     and_then (op (xc self) (xc other)) (\<lambda>x.
     and_then (op (yc self) (yc other)) (\<lambda>y.
     and_then (op (zc self) (zc other)) (\<lambda>z.
     class_from_xyz float32 (cls self) x y z)))"

text \<open>\<^verbatim>\<open>__add__\<close> and \<^verbatim>\<open>__sub__\<close> (lines 82--86).\<close>

definition add :: "(real \<Rightarrow> real) \<Rightarrow> real cartesian3 \<Rightarrow> real cartesian3 \<Rightarrow> error + real cartesian3" where
  "add float32 self other = op_zip float32 self other np_add"

definition sub :: "(real \<Rightarrow> real) \<Rightarrow> real cartesian3 \<Rightarrow> real cartesian3 \<Rightarrow> error + real cartesian3" where
  "sub float32 self other = op_zip float32 self other np_subtract"

text \<open>\<^verbatim>\<open>divide\<close> (lines 95--96) and \<^verbatim>\<open>__truediv__\<close> (lines 92--93), the latter for a
  divisor that is a number.  The division is that of the element type: on \<open>ieee\<close> it is
  the IEEE division; on the reals it is the exact division, which the properties below
  use with nonzero divisors only.\<close>

definition Cartesian3_divide ::
    "('a \<Rightarrow> 'a) \<Rightarrow> ('a::inverse) cartesian3 \<Rightarrow> 'a cartesian3 \<Rightarrow> error + 'a cartesian3" where
  "Cartesian3_divide float32 self other = op_zip float32 self other np_divide"

definition truediv :: "('a::inverse) cartesian3 \<Rightarrow> 'a \<Rightarrow> error + 'a cartesian3" where
  "truediv self other =
     and_then (py_scalar_op (/) (xc self) other) (\<lambda>x.
     and_then (py_scalar_op (/) (yc self) other) (\<lambda>y.
     and_then (py_scalar_op (/) (zc self) other) (\<lambda>z.
     Inr (Cartesian3_init x y z))))"

text \<open>Indexing a Python list with a literal index.\<close>

definition getitem :: "'a list \<Rightarrow> nat \<Rightarrow> error + 'a" where
  "getitem xs i = (if i < length xs then Inr (xs ! i) else Inl IndexError)"

text \<open>\<^verbatim>\<open>move\<close> (lines 99--102): each component plus one entry of \<^verbatim>\<open>by_vector\<close>.\<close>

definition move :: "real cartesian3 \<Rightarrow> real list \<Rightarrow> error + real cartesian3" where
  "move self by_vector =
     and_then (getitem by_vector 0) (\<lambda>b0.
     and_then (py_scalar_op (+) (xc self) b0) (\<lambda>x.
     and_then (getitem by_vector 1) (\<lambda>b1.
     and_then (py_scalar_op (+) (yc self) b1) (\<lambda>y.
     and_then (getitem by_vector 2) (\<lambda>b2.
     and_then (py_scalar_op (+) (zc self) b2) (\<lambda>z.
     Inr (Cartesian3_init x y z)))))))"

text \<open>\<^verbatim>\<open>from_matrix\<close> (lines 59--65): the rows 0, 1, 2 of the matrix.\<close>

definition from_matrix :: "(real \<Rightarrow> real) \<Rightarrow> matrix \<Rightarrow> error + real cartesian3" where
  "from_matrix float32 m =
     and_then (getitem (mrows m) 0) (\<lambda>r0.
     and_then (getitem (mrows m) 1) (\<lambda>r1.
     and_then (getitem (mrows m) 2) (\<lambda>r2.
     from_xyz float32 (Arr (mkind m) r0) (Arr (mkind m) r1) (Arr (mkind m) r2))))"

text \<open>\<^verbatim>\<open>to_matrix\<close> (lines 155--156) and \<^verbatim>\<open>to_tensor\<close> (lines 158--159).\<close>

definition to_matrix :: "real cartesian3 \<Rightarrow> error + matrix" where
  "to_matrix self = tf_stack (xc self) (yc self) (zc self)"

definition to_tensor :: "real cartesian3 \<Rightarrow> error + matrix" where
  "to_tensor self =
     tf_stack (convert_to_tensor (xc self)) (convert_to_tensor (yc self))
       (convert_to_tensor (zc self))"

text \<open>\<^verbatim>\<open>np.matmul\<close> of two matrices given by their rows: entry (i, j) is the sum over k
  of \<open>m[i][k] * n[k][j]\<close>; the result is an \<^verbatim>\<open>ndarray\<close>, and \<^verbatim>\<open>ValueError\<close> is raised
  when a row of \<open>m\<close> is not as long as \<open>n\<close> has rows.\<close>

definition ncols :: "real list list \<Rightarrow> nat" where
  "ncols rs = (case rs of [] \<Rightarrow> 0 | r # _ \<Rightarrow> length r)"

definition np_matmul :: "matrix \<Rightarrow> matrix \<Rightarrow> error + matrix" where
  "np_matmul m n =
     (if list_all (\<lambda>row. length row = length (mrows n)) (mrows m)
      then Inr (Mat NdArray
             (map (\<lambda>row. map (\<lambda>j. sum_list (map2 (\<lambda>a nrow. a * nrow ! j) row (mrows n)))
                               [0..<ncols (mrows n)])
                  (mrows m)))
      else Inl ValueError)"

text \<open>\<^verbatim>\<open>left_matmul\<close> (lines 147--149).\<close>

definition left_matmul ::
    "(real \<Rightarrow> real) \<Rightarrow> real cartesian3 \<Rightarrow> matrix \<Rightarrow> error + real cartesian3" where
  "left_matmul float32 self m =
     and_then (to_matrix self) (\<lambda>s.
     and_then (np_matmul m s) (\<lambda>result.
     from_matrix float32 result))"

text \<open>The three matrices local to \<^verbatim>\<open>rotate_ypr\<close> (lines 114--139).\<close>

definition rotation_matrix_x :: "real \<Rightarrow> matrix" where
  "rotation_matrix_x angle =
     Mat Tensor [ [1, 0, 0],
                 [0, cos angle, - sin angle],
                 [0, sin angle, cos angle] ]"

definition rotation_matrix_y :: "real \<Rightarrow> matrix" where
  "rotation_matrix_y angle =
     Mat Tensor [ [cos angle, 0, sin angle],
                 [0, 1, 0],
                 [- sin angle, 0, cos angle] ]"

definition rotation_matrix_z :: "real \<Rightarrow> matrix" where
  "rotation_matrix_z angle =
     Mat Tensor [ [cos angle, - sin angle, 0],
                 [sin angle, cos angle, 0],
                 [0, 0, 1] ]"

text \<open>\<^verbatim>\<open>rotate_ypr\<close> (lines 113--145): the method chain evaluates left to right, each
  index into \<^verbatim>\<open>rv_ypr\<close> just before the call that uses it.\<close>

definition rotate_ypr ::
    "(real \<Rightarrow> real) \<Rightarrow> real cartesian3 \<Rightarrow> real list \<Rightarrow> error + real cartesian3" where
  "rotate_ypr float32 self rv_ypr =
     and_then (getitem rv_ypr 0) (\<lambda>a0.
     and_then (left_matmul float32 self (rotation_matrix_x a0)) (\<lambda>p1.
     and_then (getitem rv_ypr 1) (\<lambda>a1.
     and_then (left_matmul float32 p1 (rotation_matrix_y a1)) (\<lambda>p2.
     and_then (getitem rv_ypr 2) (\<lambda>a2.
     left_matmul float32 p2 (rotation_matrix_z a2))))))"

text \<open>\<^verbatim>\<open>tf.reduce_sum(t, axis=0)\<close> of a matrix: the sums of its columns.\<close>

definition reduce_sum_axis0 :: "matrix \<Rightarrow> real arr" where
  "reduce_sum_axis0 t =
     Arr Tensor (map (\<lambda>j. sum_list (map (\<lambda>row. row ! j) (mrows t))) [0..<ncols (mrows t)])"

definition tf_square_matrix :: "matrix \<Rightarrow> matrix" where
  "tf_square_matrix t = Mat Tensor (map (map (\<lambda>v. v * v)) (mrows t))"

text \<open>\<^verbatim>\<open>distance_to\<close> (lines 151--153).\<close>

definition distance_to ::
    "(real \<Rightarrow> real) \<Rightarrow> real cartesian3 \<Rightarrow> real cartesian3 \<Rightarrow> error + real arr" where
  "distance_to float32 self other =
     and_then (sub float32 self other) (\<lambda>diff.
     and_then (to_tensor diff) (\<lambda>t.
     Inr (tf_map sqrt (reduce_sum_axis0 (tf_square_matrix t)))))"

section \<open>Spherical\<close>

datatype spherical = Spherical (r_of: "real arr") (theta_of: "real arr") (phi_of: "real arr")

text \<open>
  The floating-point operations of the two spherical conversions.  \<open>rnd\<close> is the rounding
  of the exact result of a multiplication, an addition or a square root to \<^verbatim>\<open>float64\<close>
  (a result too large rounds to an infinity in the code: the model lets \<open>rnd\<close> return
  any number there and no property below uses it).  \<open>tf_sin\<close>, \<open>tf_cos\<close> and
  \<open>tf_atan2\<close> are \<^verbatim>\<open>tf.math.sin\<close>, \<^verbatim>\<open>tf.math.cos\<close> and \<^verbatim>\<open>tf.math.atan2\<close> on one
  element.  The four functions are parameters: the model assumes nothing about them.
\<close>

record numerics =
  rnd :: "real \<Rightarrow> real"
  tf_sin :: "real \<Rightarrow> real"
  tf_cos :: "real \<Rightarrow> real"
  tf_atan2 :: "real \<Rightarrow> real \<Rightarrow> real"

text \<open>The exact \<open>atan2\<close>: the angle in \<open>(-pi, pi]\<close> of the point \<open>(x, y)\<close>, with
  value 0 at the origin.\<close>

definition atan2 :: "real \<Rightarrow> real \<Rightarrow> real" where
  "atan2 y x =
     (if 0 < x then arctan (y / x)
      else if x < 0 then (if 0 \<le> y then arctan (y / x) + pi else arctan (y / x) - pi)
      else if 0 < y then pi / 2
      else if y < 0 then - (pi / 2)
      else 0)"

text \<open>\<^verbatim>\<open>to_spherical\<close> (lines 161--170).  Python's \<^verbatim>\<open>sum\<close> starts from 0 and adds the
  three squares in turn.  Every operation rounds its result.\<close>

definition to_spherical :: "numerics \<Rightarrow> real cartesian3 \<Rightarrow> error + spherical" where
  "to_spherical fp self =
     and_then (tf_binop (\<lambda>a b. rnd fp (a + b))
                 (tf_map (\<lambda>v. rnd fp (0 + v)) (tf_map (\<lambda>v. rnd fp (v * v)) (xc self)))
                 (tf_map (\<lambda>v. rnd fp (v * v)) (yc self))) (\<lambda>sxy.
     and_then (tf_binop (\<lambda>a b. rnd fp (a + b)) sxy
                 (tf_map (\<lambda>v. rnd fp (v * v)) (zc self))) (\<lambda>sxyz.
     and_then (tf_binop (tf_atan2 fp) (yc self) (xc self)) (\<lambda>theta.
     and_then (tf_binop (\<lambda>a b. rnd fp (a + b))
                 (tf_map (\<lambda>v. rnd fp (v * v)) (xc self))
                 (tf_map (\<lambda>v. rnd fp (v * v)) (yc self))) (\<lambda>hxy.
     and_then (tf_binop (tf_atan2 fp) (tf_map (\<lambda>v. rnd fp (sqrt v)) hxy) (zc self)) (\<lambda>phi.
     Inr (Spherical (tf_map (\<lambda>v. rnd fp (sqrt v)) sxyz) theta phi))))))"

text \<open>\<^verbatim>\<open>Spherical.to_cartesian\<close> (lines 344--349).\<close>

definition to_cartesian :: "numerics \<Rightarrow> spherical \<Rightarrow> error + real cartesian3" where
  "to_cartesian fp self =
     and_then (py_binop (\<lambda>a b. rnd fp (a * b)) (r_of self)
                 (tf_map (tf_sin fp) (phi_of self))) (\<lambda>rs1.
     and_then (py_binop (\<lambda>a b. rnd fp (a * b)) rs1
                 (tf_map (tf_cos fp) (theta_of self))) (\<lambda>x.
     and_then (py_binop (\<lambda>a b. rnd fp (a * b)) (r_of self)
                 (tf_map (tf_sin fp) (phi_of self))) (\<lambda>rs2.
     and_then (py_binop (\<lambda>a b. rnd fp (a * b)) rs2
                 (tf_map (tf_sin fp) (theta_of self))) (\<lambda>y.
     and_then (py_binop (\<lambda>a b. rnd fp (a * b)) (r_of self)
                 (tf_map (tf_cos fp) (phi_of self))) (\<lambda>z.
     Inr (Cartesian3_init x y z))))))"

section \<open>Vector\<close>

text \<open>\<^verbatim>\<open>Vector.dot\<close> (lines 312--313).\<close>

definition dot :: "real cartesian3 \<Rightarrow> real cartesian3 \<Rightarrow> error + real cartesian3" where
  "dot self other =
     and_then (py_binop (*) (xc self) (xc other)) (\<lambda>x.
     and_then (py_binop (*) (yc self) (yc other)) (\<lambda>y.
     and_then (py_binop (*) (zc self) (zc other)) (\<lambda>z.
     Inr (Vector_init x y z))))"

text \<open>
  \<^verbatim>\<open>Vector.norm\<close> (lines 322--328) on \<open>ieee\<close> values.  The list of the three squares is
  packed into one tensor, which needs them to have one shape; \<^verbatim>\<open>tf.reduce_sum\<close> along
  axis 0 then adds the three rows.  \<open>rounding\<close> is the rounding of a result to
  \<^verbatim>\<open>float64\<close>, a parameter (it is what makes a square overflow or underflow).
\<close>

definition Vector_norm :: "(ieee \<Rightarrow> ieee) \<Rightarrow> ieee cartesian3 \<Rightarrow> error + ieee arr" where
  "Vector_norm rounding self =
     (if length (elems (xc self)) = length (elems (yc self)) \<and>
         length (elems (yc self)) = length (elems (zc self))
      then Inr (Arr Tensor
             (map (\<lambda>(a, b, c).
                     rounding (ieee_sqrt
                       (rounding (rounding (rounding (a * a) + rounding (b * b))
                                  + rounding (c * c)))))
                  (zip (elems (xc self)) (zip (elems (yc self)) (elems (zc self))))))
      else Inl InvalidArgumentError)"

text \<open>\<^verbatim>\<open>Vector.unit\<close> (lines 330--335): the property \<^verbatim>\<open>norm\<close> is computed anew for
  each component.\<close>

definition Vector_unit :: "(ieee \<Rightarrow> ieee) \<Rightarrow> ieee cartesian3 \<Rightarrow> error + ieee cartesian3" where
  "Vector_unit rounding self =
     and_then (Vector_norm rounding self) (\<lambda>n1.
     and_then (py_binop (\<lambda>a b. rounding (a / b)) (xc self) n1) (\<lambda>x.
     and_then (Vector_norm rounding self) (\<lambda>n2.
     and_then (py_binop (\<lambda>a b. rounding (a / b)) (yc self) n2) (\<lambda>y.
     and_then (Vector_norm rounding self) (\<lambda>n3.
     and_then (py_binop (\<lambda>a b. rounding (a / b)) (zc self) n3) (\<lambda>z.
     Inr (Vector_init x y z)))))))"

section \<open>Segment\<close>

datatype segment = Segment (seg_fst: "real cartesian3") (seg_snd: "real cartesian3")

text \<open>\<^verbatim>\<open>seg_length\<close> (lines 217--218).\<close>

definition seg_length :: "(real \<Rightarrow> real) \<Rightarrow> segment \<Rightarrow> error + real arr" where
  "seg_length float32 self = distance_to float32 (seg_fst self) (seg_snd self)"

text \<open>\<^verbatim>\<open>t.numpy()\<close> of a tensor.\<close>

definition numpy :: "'a arr \<Rightarrow> 'a arr" where
  "numpy t = Arr NdArray (elems t)"

text \<open>\<^verbatim>\<open>direct_vector\<close> (lines 220--221): the mapped function computes the length anew
  for each component.  The division is the exact one; the properties below use it for
  segments of nonzero length only.\<close>

definition direct_vector :: "(real \<Rightarrow> real) \<Rightarrow> segment \<Rightarrow> error + real cartesian3" where
  "direct_vector float32 self =
     and_then (sub float32 (seg_fst self) (seg_snd self)) (\<lambda>d.
     fmap d (\<lambda>i. and_then (seg_length float32 self) (\<lambda>l. py_binop (/) i (numpy l))))"

text \<open>\<^verbatim>\<open>middle_point\<close> (lines 223--225).\<close>

definition middle_point :: "(real \<Rightarrow> real) \<Rightarrow> segment \<Rightarrow> error + real cartesian3" where
  "middle_point float32 self =
     and_then (add float32 (seg_fst self) (seg_snd self)) (\<lambda>s. truediv s 2)"

section \<open>Surface\<close>

datatype surface = Surface (vertices: "real cartesian3")

text \<open>\<^verbatim>\<open>from_xy_size\<close> (lines 273--282).\<close>

definition from_xy_size :: "real \<Rightarrow> real \<Rightarrow> surface" where
  "from_xy_size x_length y_length =
     Surface (Cartesian3_init
       (Arr Tensor [x_length / 2, x_length / 2, - x_length / 2, - x_length / 2])
       (Arr Tensor [y_length / 2, - y_length / 2, y_length / 2, - y_length / 2])
       (Arr Tensor [0, 0, 0, 0]))"

text \<open>
  The names bound in the body of \<^verbatim>\<open>class Cartesian3\<close> (lines 21--203).  The class has
  no base but \<^verbatim>\<open>object\<close>, no metaclass and no \<^verbatim>\<open>__getattr__\<close>, and nothing in the
  repository assigns an attribute to it after its definition.
\<close>

definition Cartesian3_attrs :: "string list" where
  "Cartesian3_attrs =
     [''__init__'', ''fmap'', ''hmap'', ''op_zip'', ''from_xyz'', ''from_tuple3s'',
      ''from_matrix'', ''local_pos_from_hits'', ''pos_from_hits'', ''source_from_hits'',
      ''__repr__'', ''__add__'', ''__sub__'', ''__mul__'', ''__truediv__'', ''divide'',
      ''move'', ''concat'', ''rotate_ypr'', ''left_matmul'', ''distance_to'', ''to_matrix'',
      ''to_tensor'', ''to_spherical'', ''to_plotly'', ''to_plotly_as_mesh3d'', ''view'']"

text \<open>Looking a name up on a class object raises \<^verbatim>\<open>AttributeError\<close> when the class
  does not bind it.\<close>

definition class_getattr :: "string list \<Rightarrow> string \<Rightarrow> error + unit" where
  "class_getattr names n = (if n \<in> set names then Inr () else Inl AttributeError)"

text \<open>
  \<^verbatim>\<open>Surface.move\<close> (lines 284--285) is
  \<^verbatim>\<open>Surface(self.vertices + Cartesian3.from_tuple(move_vector))\<close>.  Both operands
  are evaluated before the addition: \<^verbatim>\<open>self.vertices\<close> is read, then the name
  \<^verbatim>\<open>from_tuple\<close> is looked up on the class and the result is called; then the two
  triples are added.  No function \<^verbatim>\<open>from_tuple\<close> exists in the repository, so what a
  successful lookup would call is the parameter \<open>from_tuple\<close> of the model.
\<close>

definition Surface_move ::
    "(real \<Rightarrow> real) \<Rightarrow> (real list \<Rightarrow> error + real cartesian3) \<Rightarrow> surface \<Rightarrow> real list \<Rightarrow>
     error + surface" where
  "Surface_move float32 from_tuple self move_vector =
     and_then (class_getattr Cartesian3_attrs ''from_tuple'') (\<lambda>_.
     and_then (from_tuple move_vector) (\<lambda>t.
     and_then (add float32 (vertices self) t) (\<lambda>v.
     Inr (Surface v))))"

text \<open>\<^verbatim>\<open>Surface.rotate_ypr\<close> (lines 287--288).\<close>

definition Surface_rotate_ypr :: "(real \<Rightarrow> real) \<Rightarrow> surface \<Rightarrow> real list \<Rightarrow> error + surface" where
  "Surface_rotate_ypr float32 self rv_ypr =
     and_then (rotate_ypr float32 (vertices self) rv_ypr) (\<lambda>v. Inr (Surface v))"

section \<open>Box\<close>

datatype box = Box (surface: "surface list")

text \<open>\<^verbatim>\<open>Box.from_size\<close> (lines 442--463): the six list elements are evaluated in
  order.\<close>

definition from_size ::
    "(real \<Rightarrow> real) \<Rightarrow> (real list \<Rightarrow> error + real cartesian3) \<Rightarrow> real \<Rightarrow> real \<Rightarrow> real \<Rightarrow>
     error + box" where
  "from_size float32 from_tuple x y z =
     and_then (Surface_move float32 from_tuple (from_xy_size x y) [0, 0, z / 2]) (\<lambda>s1.
     and_then (Surface_move float32 from_tuple (from_xy_size x y) [0, 0, - z / 2]) (\<lambda>s2.
     and_then (Surface_rotate_ypr float32 (from_xy_size x z) [pi / 2, 0, 0]) (\<lambda>r3.
     and_then (Surface_move float32 from_tuple r3 [0, y / 2, 0]) (\<lambda>s3.
     and_then (Surface_rotate_ypr float32 (from_xy_size x z) [pi / 2, 0, 0]) (\<lambda>r4.
     and_then (Surface_move float32 from_tuple r4 [0, - y / 2, 0]) (\<lambda>s4.
     and_then (Surface_rotate_ypr float32 (from_xy_size y z) [0, 0, pi / 2]) (\<lambda>q5.
     and_then (Surface_rotate_ypr float32 q5 [0, pi / 2, 0]) (\<lambda>r5.
     and_then (Surface_move float32 from_tuple r5 [x / 2, 0, 0]) (\<lambda>s5.
     and_then (Surface_rotate_ypr float32 (from_xy_size y z) [0, 0, pi / 2]) (\<lambda>q6.
     and_then (Surface_rotate_ypr float32 q6 [0, pi / 2, 0]) (\<lambda>r6.
     and_then (Surface_move float32 from_tuple r6 [- x / 2, 0, 0]) (\<lambda>s6.
     Inr (Box [s1, s2, s3, s4, s5, s6])))))))))))))"

text \<open>The list comprehension of \<^verbatim>\<open>Box.vertices\<close>: the first exception stops it.\<close>

fun map_result :: "('a \<Rightarrow> error + 'b) \<Rightarrow> 'a list \<Rightarrow> error + 'b list" where
  "map_result f [] = Inr []"
| "map_result f (a # as) =
     and_then (f a) (\<lambda>b. and_then (map_result f as) (\<lambda>bs. Inr (b # bs)))"

text \<open>\<^verbatim>\<open>tf.concat(ts, axis=1)\<close> of matrices of three rows each; an empty list of
  tensors is refused.\<close>

definition tf_concat_axis1 :: "matrix list \<Rightarrow> error + matrix" where
  "tf_concat_axis1 ts =
     (if ts = [] then Inl ValueError
      else Inr (Mat Tensor (map (\<lambda>i. concat (map (\<lambda>t. mrows t ! i) ts)) [0, 1, 2])))"

text \<open>\<^verbatim>\<open>Box.vertices\<close> (lines 478--482).\<close>

definition Box_vertices :: "(real \<Rightarrow> real) \<Rightarrow> box \<Rightarrow> error + real cartesian3" where
  "Box_vertices float32 self =
     and_then (map_result (\<lambda>s. to_tensor (vertices s)) (surface self)) (\<lambda>ts.
     and_then (tf_concat_axis1 ts) (\<lambda>m.
     from_matrix float32 m))"

section \<open>Notions used to state the properties\<close>

text \<open>The number of points of a coordinate triple, and whether its three components
  have one length.\<close>

definition npoints :: "'a cartesian3 \<Rightarrow> nat" where
  "npoints p = length (elems (xc p))"

definition same_length :: "'a cartesian3 \<Rightarrow> bool" where
  "same_length p = (length (elems (yc p)) = length (elems (xc p)) \<and>
           length (elems (zc p)) = length (elems (xc p)))"

text \<open>The points of a coordinate triple, one triple of numbers per point.\<close>

definition points :: "real cartesian3 \<Rightarrow> (real \<times> real \<times> real) list" where
  "points p = zip (elems (xc p)) (zip (elems (yc p)) (elems (zc p)))"

text \<open>The coordinate triple with the given points, as \<^verbatim>\<open>from_matrix\<close> builds it from
  the rows of an \<^verbatim>\<open>ndarray\<close>.\<close>

definition of_points :: "(real \<times> real \<times> real) list \<Rightarrow> real cartesian3" where
  "of_points ps =
     Instance Cartesian3 (Arr NdArray (map fst ps)) (Arr NdArray (map (\<lambda>v. fst (snd v)) ps))
       (Arr NdArray (map (\<lambda>v. snd (snd v)) ps))"

text \<open>
  The rotations of one point about the coordinate axes, as the specification words them:
  the standard rotation matrix of the axis times the column vector of the point.  These
  three definitions follow the specification, not the source; the source's rotation is
  \<open>rotate_ypr\<close> above.
\<close>

definition axis_rotation_x :: "real \<Rightarrow> real \<times> real \<times> real \<Rightarrow> real \<times> real \<times> real" where
  "axis_rotation_x t v =
     (case v of (x, y, z) \<Rightarrow> (x, cos t * y - sin t * z, sin t * y + cos t * z))"

definition axis_rotation_y :: "real \<Rightarrow> real \<times> real \<times> real \<Rightarrow> real \<times> real \<times> real" where
  "axis_rotation_y t v =
     (case v of (x, y, z) \<Rightarrow> (cos t * x + sin t * z, y, cos t * z - sin t * x))"

definition axis_rotation_z :: "real \<Rightarrow> real \<times> real \<times> real \<Rightarrow> real \<times> real \<times> real" where
  "axis_rotation_z t v =
     (case v of (x, y, z) \<Rightarrow> (cos t * x - sin t * y, sin t * x + cos t * y, z))"

text \<open>The Euclidean distance of two points.\<close>

definition distance3 :: "real \<times> real \<times> real \<Rightarrow> real \<times> real \<times> real \<Rightarrow> real" where
  "distance3 a b =
     sqrt ((fst a - fst b) * (fst a - fst b)
           + (fst (snd a) - fst (snd b)) * (fst (snd a) - fst (snd b))
           + (snd (snd a) - snd (snd b)) * (snd (snd a) - snd (snd b)))"

text \<open>A rounding with underflow, used as an example: a finite result of magnitude below
  \<open>t\<close> becomes zero; every other value is kept.\<close>

definition flush_to_zero :: "real \<Rightarrow> ieee \<Rightarrow> ieee" where
  "flush_to_zero t v = (case v of Finite a \<Rightarrow> if \<bar>a\<bar> < t then Finite 0 else Finite a | _ \<Rightarrow> v)"

section \<open>Basic facts\<close>

lemma and_then_eq_Inr:
  "and_then m f = Inr r \<longleftrightarrow> (\<exists>v. m = Inr v \<and> f v = Inr r)"
  by (cases m) simp_all

lemma broadcast_same_length:
  "length as = length bs \<Longrightarrow> broadcast f as bs = Some (map2 f as bs)"
  by (simp add: broadcast_def)

lemma broadcast_mismatch:
  "length as \<noteq> length bs \<Longrightarrow> length as \<noteq> 1 \<Longrightarrow> length bs \<noteq> 1 \<Longrightarrow> broadcast f as bs = None"
  by (simp add: broadcast_def)

lemma broadcast_returns:
  "length as = length bs \<or> length as = 1 \<or> length bs = 1 \<Longrightarrow>
   \<exists>cs. broadcast f as bs = Some cs \<and>
        length cs = (if length as = length bs then length as
                     else if length as = 1 then length bs else length as)"
  by (auto simp: broadcast_def)

lemma np_ufunc_same_length:
  "length (elems a) = length (elems b) \<Longrightarrow>
   np_ufunc f a b = Inr (Arr NdArray (map2 f (elems a) (elems b)))"
  by (simp add: np_ufunc_def broadcast_same_length)

lemma from_xyz_eq:
  "from_xyz float32 x y z =
     Inr (Instance Cartesian3 (convert_type_if_not_nparray float32 x)
            (convert_type_if_not_nparray float32 y) (convert_type_if_not_nparray float32 z))"
  by (simp add: from_xyz_def fmap_def Cartesian3_init_def construct_def)

lemma elems_convert:
  "elems (convert_type_if_not_nparray float32 a) =
     (if kind a = NdArray then elems a else map float32 (elems a))"
  by (simp add: convert_type_if_not_nparray_def)

lemma length_convert:
  "length (elems (convert_type_if_not_nparray float32 a)) = length (elems a)"
  by (simp add: convert_type_if_not_nparray_def)

lemma kind_convert: "kind (convert_type_if_not_nparray float32 a) = NdArray"
  by (simp add: convert_type_if_not_nparray_def)

lemma convert_NdArray: "convert_type_if_not_nparray float32 (Arr NdArray v) = Arr NdArray v"
  by (simp add: convert_type_if_not_nparray_def)

lemma class_from_xyz_eq: "class_from_xyz float32 c = from_xyz float32"
  by (cases c) (simp_all add: class_from_xyz_def)

lemma op_zip_class: "op_zip float32 v w op = Inr r \<Longrightarrow> cls r = Cartesian3"
  by (auto simp: op_zip_def class_from_xyz_eq from_xyz_eq and_then_eq_Inr)

lemma fmap_class: "fmap v f = Inr r \<Longrightarrow> cls r = cls v"
  by (cases "cls v")
     (auto simp: fmap_def construct_def Cartesian3_init_def Vector_init_def and_then_eq_Inr)

lemma op_zip_np_same_length:
  assumes "same_length v" "same_length w" "npoints v = npoints w"
  shows "op_zip float32 v w (np_ufunc f) =
     Inr (Instance Cartesian3 (Arr NdArray (map2 f (elems (xc v)) (elems (xc w))))
                              (Arr NdArray (map2 f (elems (yc v)) (elems (yc w))))
                              (Arr NdArray (map2 f (elems (zc v)) (elems (zc w)))))"
  using assms
  by (simp add: op_zip_def same_length_def npoints_def np_ufunc_same_length class_from_xyz_eq
      from_xyz_eq convert_NdArray)

lemma points_of_points: "points (of_points ps) = ps"
  by (simp add: points_def of_points_def zip_map_map zip_same_conv_map map_idI)

lemma same_length_of_points: "same_length (of_points ps)"
  by (simp add: same_length_def of_points_def)

lemma npoints_of_points: "npoints (of_points ps) = length ps"
  by (simp add: npoints_def of_points_def)

text \<open>\<^verbatim>\<open>Cartesian3.move\<close> itself adds the offset to every point of a triple held in
  arrays or tensors.  (\<^verbatim>\<open>Surface.move\<close> does not call it.)\<close>

lemma move_adds_offset:
  assumes "kind x \<noteq> PyList" "kind y \<noteq> PyList" "kind z \<noteq> PyList"
  shows "move (Instance c x y z) [a, b, d] =
     Inr (Instance Cartesian3 (Arr (kind x) (map (\<lambda>v. v + a) (elems x)))
                              (Arr (kind y) (map (\<lambda>v. v + b) (elems y)))
                              (Arr (kind z) (map (\<lambda>v. v + d) (elems z))))"
  using assms
  by (cases "kind x"; cases "kind y"; cases "kind z")
     (simp_all add: move_def getitem_def py_scalar_op_def Cartesian3_init_def)

section \<open>Rotation\<close>

lemma map_upt_zip3:
  assumes "length ys = length xs" "length zs = length xs"
  shows "map (\<lambda>j. f (xs ! j) (ys ! j) (zs ! j)) [0..<length xs] =
         map (\<lambda>v. f (fst v) (fst (snd v)) (snd (snd v))) (zip xs (zip ys zs))"
  using assms by (intro nth_equalityI) simp_all

text \<open>\<^verbatim>\<open>left_matmul\<close> with a 3 by 3 matrix applies the matrix to every point.\<close>

lemma left_matmul_3x3:
  assumes "same_length p"
  shows "left_matmul float32 p (Mat k [ [a, b, c], [d, e, f], [g, h, i] ]) =
     Inr (of_points (map (\<lambda>v. (a * fst v + b * fst (snd v) + c * snd (snd v),
                                d * fst v + e * fst (snd v) + f * snd (snd v),
                                g * fst v + h * fst (snd v) + i * snd (snd v))) (points p)))"
proof -
  obtain c0 kx xs ky ys kz zs where p: "p = Instance c0 (Arr kx xs) (Arr ky ys) (Arr kz zs)"
    by (metis cartesian3.exhaust arr.exhaust)
  from assms have len: "length ys = length xs" "length zs = length xs"
    by (simp_all add: same_length_def p)
  have m: "np_matmul (Mat k [ [a, b, c], [d, e, f], [g, h, i] ]) (Mat Tensor [xs, ys, zs]) =
      Inr (Mat NdArray
        [map (\<lambda>j. a * xs ! j + b * ys ! j + c * zs ! j) [0..<length xs],
         map (\<lambda>j. d * xs ! j + e * ys ! j + f * zs ! j) [0..<length xs],
         map (\<lambda>j. g * xs ! j + h * ys ! j + i * zs ! j) [0..<length xs] ])"
    by (simp add: np_matmul_def ncols_def add.assoc)
  note r = map_upt_zip3 [OF len, of "\<lambda>x y z. a * x + b * y + c * z"]
    map_upt_zip3 [OF len, of "\<lambda>x y z. d * x + e * y + f * z"]
    map_upt_zip3 [OF len, of "\<lambda>x y z. g * x + h * y + i * z"]
  show ?thesis
    by (simp add: left_matmul_def to_matrix_def tf_stack_def p len m from_matrix_def
        getitem_def from_xyz_eq convert_NdArray of_points_def points_def r o_def)
qed

lemma axis_rotation_fun:
  "axis_rotation_x t = (\<lambda>v. (fst v, cos t * fst (snd v) - sin t * snd (snd v),
                                  sin t * fst (snd v) + cos t * snd (snd v)))"
  "axis_rotation_y t = (\<lambda>v. (cos t * fst v + sin t * snd (snd v), fst (snd v),
                                  cos t * snd (snd v) - sin t * fst v))"
  "axis_rotation_z t = (\<lambda>v. (cos t * fst v - sin t * fst (snd v),
                                  sin t * fst v + cos t * fst (snd v), snd (snd v)))"
  by (simp_all add: fun_eq_iff axis_rotation_x_def axis_rotation_y_def axis_rotation_z_def)

lemma rotate_ypr_points:
  assumes "same_length p"
  shows "rotate_ypr float32 p [a, b, c] =
           Inr (of_points (map (\<lambda>v. axis_rotation_z c (axis_rotation_y b (axis_rotation_x a v)))
                               (points p)))"
proof -
  have x: "left_matmul float32 p (rotation_matrix_x a) =
      Inr (of_points (map (axis_rotation_x a) (points p)))"
    unfolding rotation_matrix_x_def left_matmul_3x3 [OF assms]
    by (simp add: axis_rotation_fun)
  have y: "left_matmul float32 (of_points ps) (rotation_matrix_y b) =
      Inr (of_points (map (axis_rotation_y b) ps))" for ps
    unfolding rotation_matrix_y_def left_matmul_3x3 [OF same_length_of_points]
    by (simp add: axis_rotation_fun points_of_points)
  have z: "left_matmul float32 (of_points ps) (rotation_matrix_z c) =
      Inr (of_points (map (axis_rotation_z c) ps))" for ps
    unfolding rotation_matrix_z_def left_matmul_3x3 [OF same_length_of_points]
    by (simp add: axis_rotation_fun points_of_points)
  show ?thesis
    by (simp add: rotate_ypr_def getitem_def x y z o_def)
qed

text \<open>Turning the point (0, 1, 0) a quarter about X and then about Z leaves it at
  (0, 0, 1); a quarter about Z first and then about X leaves it at (-1, 0, 0).\<close>

lemma x_then_z_differs_from_z_then_x:
  "rotate_ypr float32 (of_points [(0, 1, 0)]) [pi / 2, 0, pi / 2] \<noteq>
     and_then (rotate_ypr float32 (of_points [(0, 1, 0)]) [0, 0, pi / 2])
              (\<lambda>q. rotate_ypr float32 q [pi / 2, 0, 0])"
proof -
  have xz: "rotate_ypr float32 (of_points [(0, 1, 0)]) [pi / 2, 0, pi / 2] =
      Inr (of_points [(0, 0, 1)])"
    by (simp add: rotate_ypr_points same_length_of_points points_of_points
        axis_rotation_x_def axis_rotation_y_def axis_rotation_z_def)
  have z: "rotate_ypr float32 (of_points [(0, 1, 0)]) [0, 0, pi / 2] =
      Inr (of_points [(- 1, 0, 0)])"
    by (simp add: rotate_ypr_points same_length_of_points points_of_points
        axis_rotation_x_def axis_rotation_y_def axis_rotation_z_def)
  have x: "rotate_ypr float32 (of_points [(- 1, 0, 0)]) [pi / 2, 0, 0] =
      Inr (of_points [(- 1, 0, 0)])"
    by (simp add: rotate_ypr_points same_length_of_points points_of_points
        axis_rotation_x_def axis_rotation_y_def axis_rotation_z_def)
  show ?thesis
    unfolding xz z and_then.simps x by (simp add: of_points_def)
qed

section \<open>The vertices of a box\<close>

text \<open>\<^verbatim>\<open>Box.vertices\<close> of a box that exists: the components of its surfaces, one
  surface after the other, converted to \<^verbatim>\<open>float32\<close>; six surfaces of four points give
  24 points.\<close>

lemma map_result_to_tensor:
  "list_all (\<lambda>s. same_length (vertices s)) ss \<Longrightarrow>
   map_result (\<lambda>s. to_tensor (vertices s)) ss =
     Inr (map (\<lambda>s. Mat Tensor [elems (xc (vertices s)), elems (yc (vertices s)),
                                  elems (zc (vertices s))]) ss)"
  by (induction ss)
     (simp_all add: to_tensor_def tf_stack_def convert_to_tensor_def same_length_def)

lemma Box_vertices_concat:
  assumes "list_all (\<lambda>s. same_length (vertices s)) ss" "ss \<noteq> []"
  shows "Box_vertices float32 (Box ss) =
     Inr (Instance Cartesian3
       (Arr NdArray (map float32 (concat (map (\<lambda>s. elems (xc (vertices s))) ss))))
       (Arr NdArray (map float32 (concat (map (\<lambda>s. elems (yc (vertices s))) ss))))
       (Arr NdArray (map float32 (concat (map (\<lambda>s. elems (zc (vertices s))) ss)))))"
  using assms
  by (simp add: Box_vertices_def map_result_to_tensor tf_concat_axis1_def from_matrix_def
      getitem_def from_xyz_eq convert_type_if_not_nparray_def o_def)

lemma length_concat_const:
  "list_all (\<lambda>s. length (f s) = k) ss \<Longrightarrow> length (concat (map f ss)) = k * length ss"
  by (induction ss) simp_all

lemma Box_vertices_six_by_four:
  assumes "list_all (\<lambda>s. same_length (vertices s)) ss"
    and "list_all (\<lambda>s. npoints (vertices s) = 4) ss" and "length ss = 6"
  shows "\<exists>v. Box_vertices float32 (Box ss) = Inr v \<and> npoints v = 24"
proof -
  from assms(3) have "ss \<noteq> []" by auto
  moreover have "length (concat (map (\<lambda>s. elems (xc (vertices s))) ss)) = 4 * length ss"
    using assms(2) unfolding npoints_def by (rule length_concat_const)
  ultimately show ?thesis
    using assms(1,3) by (simp add: Box_vertices_concat npoints_def)
qed

section \<open>Segments\<close>

lemma sub_points:
  assumes "same_length p" "same_length q" "npoints q = npoints p"
  shows "sub float32 p q =
     Inr (of_points (map2 (\<lambda>a b. (fst a - fst b, fst (snd a) - fst (snd b),
                                     snd (snd a) - snd (snd b))) (points p) (points q)))"
proof -
  obtain c1 kx1 xs1 ky1 ys1 kz1 zs1 where p: "p = Instance c1 (Arr kx1 xs1) (Arr ky1 ys1) (Arr kz1 zs1)"
    by (metis cartesian3.exhaust arr.exhaust)
  obtain c2 kx2 xs2 ky2 ys2 kz2 zs2 where q: "q = Instance c2 (Arr kx2 xs2) (Arr ky2 ys2) (Arr kz2 zs2)"
    by (metis cartesian3.exhaust arr.exhaust)
  from assms have len: "length ys1 = length xs1" "length zs1 = length xs1"
    "length xs2 = length xs1" "length ys2 = length xs1" "length zs2 = length xs1"
    by (simp_all add: same_length_def npoints_def p q)
  have "sub float32 p q = Inr (Instance Cartesian3 (Arr NdArray (map2 (-) xs1 xs2))
      (Arr NdArray (map2 (-) ys1 ys2)) (Arr NdArray (map2 (-) zs1 zs2)))"
    using assms by (simp add: sub_def np_subtract_def op_zip_np_same_length p q)
  moreover have "map2 (-) xs1 xs2 = map fst (map2 (\<lambda>a b. (fst a - fst b, fst (snd a) - fst (snd b),
        snd (snd a) - snd (snd b))) (zip xs1 (zip ys1 zs1)) (zip xs2 (zip ys2 zs2)))"
    using len by (intro nth_equalityI) simp_all
  moreover have "map2 (-) ys1 ys2 = map (\<lambda>v. fst (snd v)) (map2 (\<lambda>a b. (fst a - fst b, fst (snd a) - fst (snd b),
        snd (snd a) - snd (snd b))) (zip xs1 (zip ys1 zs1)) (zip xs2 (zip ys2 zs2)))"
    using len by (intro nth_equalityI) simp_all
  moreover have "map2 (-) zs1 zs2 = map (\<lambda>v. snd (snd v)) (map2 (\<lambda>a b. (fst a - fst b, fst (snd a) - fst (snd b),
        snd (snd a) - snd (snd b))) (zip xs1 (zip ys1 zs1)) (zip xs2 (zip ys2 zs2)))"
    using len by (intro nth_equalityI) simp_all
  ultimately show ?thesis
    by (simp only: of_points_def points_def p q cartesian3.sel arr.sel)
qed


lemma add_points:
  assumes "same_length p" "same_length q" "npoints q = npoints p"
  shows "add float32 p q =
     Inr (of_points (map2 (\<lambda>a b. (fst a + fst b, fst (snd a) + fst (snd b),
                                     snd (snd a) + snd (snd b))) (points p) (points q)))"
proof -
  obtain c1 kx1 xs1 ky1 ys1 kz1 zs1 where p: "p = Instance c1 (Arr kx1 xs1) (Arr ky1 ys1) (Arr kz1 zs1)"
    by (metis cartesian3.exhaust arr.exhaust)
  obtain c2 kx2 xs2 ky2 ys2 kz2 zs2 where q: "q = Instance c2 (Arr kx2 xs2) (Arr ky2 ys2) (Arr kz2 zs2)"
    by (metis cartesian3.exhaust arr.exhaust)
  from assms have len: "length ys1 = length xs1" "length zs1 = length xs1"
    "length xs2 = length xs1" "length ys2 = length xs1" "length zs2 = length xs1"
    by (simp_all add: same_length_def npoints_def p q)
  have "add float32 p q = Inr (Instance Cartesian3 (Arr NdArray (map2 (+) xs1 xs2))
      (Arr NdArray (map2 (+) ys1 ys2)) (Arr NdArray (map2 (+) zs1 zs2)))"
    using assms by (simp add: add_def np_add_def op_zip_np_same_length p q)
  moreover have "map2 (+) xs1 xs2 = map fst (map2 (\<lambda>a b. (fst a + fst b, fst (snd a) + fst (snd b),
        snd (snd a) + snd (snd b))) (zip xs1 (zip ys1 zs1)) (zip xs2 (zip ys2 zs2)))"
    using len by (intro nth_equalityI) simp_all
  moreover have "map2 (+) ys1 ys2 = map (\<lambda>v. fst (snd v)) (map2 (\<lambda>a b. (fst a + fst b, fst (snd a) + fst (snd b),
        snd (snd a) + snd (snd b))) (zip xs1 (zip ys1 zs1)) (zip xs2 (zip ys2 zs2)))"
    using len by (intro nth_equalityI) simp_all
  moreover have "map2 (+) zs1 zs2 = map (\<lambda>v. snd (snd v)) (map2 (\<lambda>a b. (fst a + fst b, fst (snd a) + fst (snd b),
        snd (snd a) + snd (snd b))) (zip xs1 (zip ys1 zs1)) (zip xs2 (zip ys2 zs2)))"
    using len by (intro nth_equalityI) simp_all
  ultimately show ?thesis
    by (simp only: of_points_def points_def p q cartesian3.sel arr.sel)
qed

lemma length_of_points:
  "tf_map sqrt (reduce_sum_axis0 (tf_square_matrix
       (Mat Tensor [map fst ds, map (\<lambda>v. fst (snd v)) ds, map (\<lambda>v. snd (snd v)) ds]))) =
   Arr Tensor (map (\<lambda>v. sqrt (fst v * fst v + fst (snd v) * fst (snd v)
                                + snd (snd v) * snd (snd v))) ds)"
proof -
  have "map (\<lambda>j. sum_list (map (\<lambda>row. row ! j)
            [map (\<lambda>v. v * v) (map fst ds), map (\<lambda>v. v * v) (map (\<lambda>v. fst (snd v)) ds),
             map (\<lambda>v. v * v) (map (\<lambda>v. snd (snd v)) ds)])) [0..<length ds]
      = map (\<lambda>v. fst v * fst v + fst (snd v) * fst (snd v) + snd (snd v) * snd (snd v)) ds"
    by (intro nth_equalityI) simp_all
  then show ?thesis
    by (simp add: tf_map_def reduce_sum_axis0_def tf_square_matrix_def ncols_def o_def)
qed

lemma distance_to_points:
  assumes "same_length p" "same_length q" "npoints q = npoints p"
  shows "distance_to float32 p q = Inr (Arr Tensor (map2 distance3 (points p) (points q)))"
proof -
  define ds where "ds = map2 (\<lambda>a b. (fst a - fst b, fst (snd a) - fst (snd b),
      snd (snd a) - snd (snd b))) (points p) (points q)"
  have s: "sub float32 p q = Inr (of_points ds)"
    unfolding ds_def by (rule sub_points [OF assms])
  have 1: "distance_to float32 p q = Inr (tf_map sqrt (reduce_sum_axis0 (tf_square_matrix
       (Mat Tensor [map fst ds, map (\<lambda>v. fst (snd v)) ds, map (\<lambda>v. snd (snd v)) ds]))))"
    by (simp add: distance_to_def s to_tensor_def of_points_def convert_to_tensor_def
        tf_stack_def)
  have 2: "map (\<lambda>v. sqrt (fst v * fst v + fst (snd v) * fst (snd v) + snd (snd v) * snd (snd v))) ds
        = map2 distance3 (points p) (points q)"
    unfolding ds_def by (simp add: distance3_def case_prod_beta)
  show ?thesis unfolding 1 length_of_points 2 ..
qed

lemma segment_general:
  assumes "same_length p" "same_length q" "npoints q = npoints p"
  shows "seg_length float32 (Segment p q) = Inr (Arr Tensor (map2 distance3 (points p) (points q)))"
    and "middle_point float32 (Segment p q) =
       Inr (of_points (map2 (\<lambda>a b. ((fst a + fst b) / 2, (fst (snd a) + fst (snd b)) / 2,
                                       (snd (snd a) + snd (snd b)) / 2)) (points p) (points q)))"
    and "direct_vector float32 (Segment p q) =
       Inr (of_points (map2 (\<lambda>a b. ((fst a - fst b) / distance3 a b,
                                       (fst (snd a) - fst (snd b)) / distance3 a b,
                                       (snd (snd a) - snd (snd b)) / distance3 a b))
                            (points p) (points q)))"
proof -
  show l: "seg_length float32 (Segment p q) = Inr (Arr Tensor (map2 distance3 (points p) (points q)))"
    by (simp add: seg_length_def distance_to_points [OF assms])
  show "middle_point float32 (Segment p q) =
       Inr (of_points (map2 (\<lambda>a b. ((fst a + fst b) / 2, (fst (snd a) + fst (snd b)) / 2,
                                       (snd (snd a) + snd (snd b)) / 2)) (points p) (points q)))"
    by (simp add: middle_point_def add_points [OF assms] truediv_def of_points_def
        py_scalar_op_def Cartesian3_init_def o_def case_prod_beta)
  have n: "length (points q) = length (points p)"
    using assms by (simp add: points_def same_length_def npoints_def)
  show "direct_vector float32 (Segment p q) =
       Inr (of_points (map2 (\<lambda>a b. ((fst a - fst b) / distance3 a b,
                                       (fst (snd a) - fst (snd b)) / distance3 a b,
                                       (snd (snd a) - snd (snd b)) / distance3 a b))
                            (points p) (points q)))"
    using n
    by (simp add: direct_vector_def sub_points [OF assms] l fmap_def of_points_def numpy_def
        py_binop_def np_ufunc_same_length construct_def Cartesian3_init_def
        zip_map_map zip_same_conv_map o_def case_prod_beta)
qed


section \<open>Broadcasting and division\<close>

lemma op_zip_np_returns:
  assumes "same_length v" "same_length w" "npoints v = 1 \<or> npoints w = 1"
  shows "\<exists>r. op_zip float32 v w (np_ufunc f) = Inr r \<and> same_length r \<and>
             npoints r = (if npoints v = 1 then npoints w else npoints v)"
proof -
  obtain c1 kx1 xs1 ky1 ys1 kz1 zs1 where p: "v = Instance c1 (Arr kx1 xs1) (Arr ky1 ys1) (Arr kz1 zs1)"
    by (metis cartesian3.exhaust arr.exhaust)
  obtain c2 kx2 xs2 ky2 ys2 kz2 zs2 where q: "w = Instance c2 (Arr kx2 xs2) (Arr ky2 ys2) (Arr kz2 zs2)"
    by (metis cartesian3.exhaust arr.exhaust)
  from assms have len: "length ys1 = length xs1" "length zs1 = length xs1"
    "length ys2 = length xs2" "length zs2 = length xs2" "length xs1 = 1 \<or> length xs2 = 1"
    by (simp_all add: same_length_def npoints_def p q)
  then show ?thesis
    by (auto simp: op_zip_def p q np_ufunc_def broadcast_def class_from_xyz_eq from_xyz_eq
        convert_NdArray same_length_def npoints_def)
qed

lemma divide_zero_not_finite: "\<not> is_finite (v / Finite 0)"
  by (cases v) simp_all

lemma Vector_norm_same_length:
  assumes "length (elems y) = length (elems x)" "length (elems z) = length (elems x)"
  shows "\<exists>n. Vector_norm rounding (Vector_init x y z) = Inr (Arr Tensor n) \<and>
             length n = length (elems x)"
  using assms by (simp add: Vector_norm_def Vector_init_def convert_to_tensor_def)


lemma Vector_unit_same_length:
  assumes "length (elems y) = length (elems x)" "length (elems z) = length (elems x)"
    and "Vector_norm rounding (Vector_init x y z) = Inr (Arr Tensor n)"
  shows "Vector_unit rounding (Vector_init x y z) =
     Inr (Instance Vector (Arr Tensor (map2 (\<lambda>a b. rounding (a / b)) (elems x) n))
                          (Arr Tensor (map2 (\<lambda>a b. rounding (a / b)) (elems y) n))
                          (Arr Tensor (map2 (\<lambda>a b. rounding (a / b)) (elems z) n)))"
proof -
  from assms have "length n = length (elems x)"
    using Vector_norm_same_length [OF assms(1,2), of rounding] by auto
  with assms show ?thesis
    by (simp add: Vector_unit_def Vector_init_def convert_to_tensor_def py_binop_def
        tf_binop_def broadcast_same_length)
qed

lemma truediv_array:
  assumes "kind (xc p) \<noteq> PyList" "kind (yc p) \<noteq> PyList" "kind (zc p) \<noteq> PyList"
  shows "truediv p d =
     Inr (Instance Cartesian3 (Arr (kind (xc p)) (map (\<lambda>v. v / d) (elems (xc p))))
                              (Arr (kind (yc p)) (map (\<lambda>v. v / d) (elems (yc p))))
                              (Arr (kind (zc p)) (map (\<lambda>v. v / d) (elems (zc p)))))"
  using assms
  by (cases "kind (xc p)"; cases "kind (yc p)"; cases "kind (zc p)")
     (simp_all add: truediv_def py_scalar_op_def Cartesian3_init_def)

section \<open>The properties\<close>

subsection \<open>Boxes and surfaces\<close>

text \<open>
  Claim C1 says that the box built by \<^verbatim>\<open>Box.from_size(2, 2, 2)\<close> has a \<^verbatim>\<open>vertices\<close>
  view of exactly 24 points whose largest coordinate along each axis is 1.  In the source
  the first element of the list of surfaces is
  \<^verbatim>\<open>Surface.from_xy_size(x, y).move([0, 0, z / 2])\<close>, and \<^verbatim>\<open>Surface.move\<close> looks up
  \<^verbatim>\<open>Cartesian3.from_tuple\<close>, a name the class does not bind.  So the construction raises
  \<^verbatim>\<open>AttributeError\<close> before any box exists, whatever a function of that name would do.
\<close>

theorem from_size_raises_AttributeError:
  "from_size float32 from_tuple 2 2 2 = Inl AttributeError"
  by (simp add: from_size_def Surface_move_def class_getattr_def Cartesian3_attrs_def)

text \<open>
  Claim C2 says that \<^verbatim>\<open>Surface.move\<close> returns, for every surface and every offset of
  three components, the surface whose vertices are the old ones plus the offset, and does
  not fail.  In the source the lookup of \<^verbatim>\<open>Cartesian3.from_tuple\<close> fails for every
  surface and every offset: the method always raises \<^verbatim>\<open>AttributeError\<close>.
\<close>

theorem Surface_move_raises_AttributeError:
  "Surface_move float32 from_tuple s move_vector = Inl AttributeError"
  by (simp add: Surface_move_def class_getattr_def Cartesian3_attrs_def)

subsection \<open>Rotation order\<close>

text \<open>
  Claim C3: for a coordinate triple \<open>p\<close> whose three components have one length and
  angles \<open>[a, b, c]\<close>, \<^verbatim>\<open>rotate_ypr\<close> returns the triple whose points are those of
  \<open>p\<close>, each turned about X by \<open>a\<close>, the result turned about Y by \<open>b\<close>, and that
  result turned about Z by \<open>c\<close>; it is the chain of three \<^verbatim>\<open>left_matmul\<close> calls with
  the matrices of X, Y and Z in this order; and the order matters: a quarter turn about X
  followed by one about Z is not a quarter turn about Z followed by one about X.
\<close>

theorem rotate_ypr_x_then_y_then_z:
  assumes "same_length p"
  shows "rotate_ypr float32 p [a, b, c] =
           Inr (of_points (map (\<lambda>v. axis_rotation_z c (axis_rotation_y b (axis_rotation_x a v)))
                               (points p))) \<and>
         rotate_ypr float32 p [a, b, c] =
           and_then (left_matmul float32 p (rotation_matrix_x a)) (\<lambda>p1.
           and_then (left_matmul float32 p1 (rotation_matrix_y b)) (\<lambda>p2.
           left_matmul float32 p2 (rotation_matrix_z c))) \<and>
         rotate_ypr float32 (of_points [(0, 1, 0)]) [pi / 2, 0, pi / 2] \<noteq>
           and_then (rotate_ypr float32 (of_points [(0, 1, 0)]) [0, 0, pi / 2])
                    (\<lambda>q. rotate_ypr float32 q [pi / 2, 0, 0])"
  using rotate_ypr_points [OF assms] x_then_z_differs_from_z_then_x
  by (simp add: rotate_ypr_def getitem_def)

text \<open>The theorem at a vector of two points, turned a quarter about X and then about Z.\<close>

theorem rotate_ypr_x_then_y_then_z_witness:
  "same_length (Instance Vector (Arr Tensor [0, 1]) (Arr Tensor [1, 0]) (Arr Tensor [0, 0 :: real])) \<and>
   rotate_ypr id (Instance Vector (Arr Tensor [0, 1]) (Arr Tensor [1, 0]) (Arr Tensor [0, 0]))
     [pi / 2, 0, pi / 2] =
   Inr (Instance Cartesian3 (Arr NdArray [0, 0]) (Arr NdArray [0, 1]) (Arr NdArray [1, 0]))"
proof -
  let ?p = "Instance Vector (Arr Tensor [0, 1]) (Arr Tensor [1, 0]) (Arr Tensor [0, 0 :: real])"
  have s: "same_length ?p" by (simp add: same_length_def)
  from rotate_ypr_x_then_y_then_z [OF s, of id "pi / 2" 0 "pi / 2"] s show ?thesis
    by (simp add: points_def of_points_def axis_rotation_x_def axis_rotation_y_def
        axis_rotation_z_def)
qed

subsection \<open>Vectors\<close>

text \<open>
  Claim C5: for two vectors whose corresponding components have equal lengths,
  \<^verbatim>\<open>dot\<close> returns a \<^verbatim>\<open>Vector\<close> whose x, y and z are the elementwise products of the
  x, y and z of the operands: three arrays, not one reduced number per point.
\<close>

theorem dot_is_elementwise:
  assumes "length (elems x2) = length (elems x1)" "length (elems y2) = length (elems y1)"
    "length (elems z2) = length (elems z1)"
  shows "dot (Vector_init x1 y1 z1) (Vector_init x2 y2 z2) =
     Inr (Instance Vector (Arr Tensor (map2 (*) (elems x1) (elems x2)))
                          (Arr Tensor (map2 (*) (elems y1) (elems y2)))
                          (Arr Tensor (map2 (*) (elems z1) (elems z2))))"
  using assms
  by (simp add: dot_def Vector_init_def convert_to_tensor_def py_binop_def tf_binop_def
      broadcast_same_length)

text \<open>The theorem at (1, 2, 3) and (4, 5, 6): the result is (4, 10, 18), not 32.\<close>

theorem dot_is_elementwise_witness:
  "dot (Vector_init (Arr PyList [1]) (Arr PyList [2]) (Arr PyList [3]))
       (Vector_init (Arr PyList [4]) (Arr PyList [5]) (Arr PyList [6])) =
     Inr (Instance Vector (Arr Tensor [4]) (Arr Tensor [10]) (Arr Tensor [18]))"
  using dot_is_elementwise [of "Arr PyList [4]" "Arr PyList [1]" "Arr PyList [5]" "Arr PyList [2]"
      "Arr PyList [6]" "Arr PyList [3]"]
  by simp

subsection \<open>Shapes\<close>

text \<open>
  Claim C6, as amended.  When the point counts of two coordinate triples differ and neither
  count is 1, \<^verbatim>\<open>+\<close> and \<^verbatim>\<open>-\<close> raise the shape error of numpy (\<^verbatim>\<open>ValueError\<close>) and
  return nothing.  When the x, y and z of each of the two triples have one length and one
  of the triples has exactly one point, \<^verbatim>\<open>+\<close> and \<^verbatim>\<open>-\<close> raise nothing: they return
  a triple with as many points as the other operand has.
\<close>

theorem add_sub_shape_error:
  "(npoints p \<noteq> npoints q \<and> npoints p \<noteq> 1 \<and> npoints q \<noteq> 1 \<longrightarrow>
      add float32 p q = Inl ValueError \<and> sub float32 p q = Inl ValueError) \<and>
   (same_length p \<and> same_length q \<and> (npoints p = 1 \<or> npoints q = 1) \<longrightarrow>
      (\<exists>r. add float32 p q = Inr r \<and> same_length r \<and>
            npoints r = (if npoints p = 1 then npoints q else npoints p)) \<and>
      (\<exists>r. sub float32 p q = Inr r \<and> same_length r \<and>
            npoints r = (if npoints p = 1 then npoints q else npoints p)))"
proof (intro conjI impI)
  assume "npoints p \<noteq> npoints q \<and> npoints p \<noteq> 1 \<and> npoints q \<noteq> 1"
  then show "add float32 p q = Inl ValueError" "sub float32 p q = Inl ValueError"
    by (simp_all add: add_def sub_def op_zip_def np_add_def np_subtract_def np_ufunc_def
        npoints_def broadcast_mismatch)
next
  assume a: "same_length p \<and> same_length q \<and> (npoints p = 1 \<or> npoints q = 1)"
  then show "\<exists>r. add float32 p q = Inr r \<and> same_length r \<and>
            npoints r = (if npoints p = 1 then npoints q else npoints p)"
    unfolding add_def np_add_def by (intro op_zip_np_returns) simp_all
  from a show "\<exists>r. sub float32 p q = Inr r \<and> same_length r \<and>
            npoints r = (if npoints p = 1 then npoints q else npoints p)"
    unfolding sub_def np_subtract_def by (intro op_zip_np_returns) simp_all
qed

text \<open>The theorem at two points against three points, and at three points minus one
  point.\<close>

theorem add_sub_shape_error_witness:
  "add id (Instance Cartesian3 (Arr NdArray [1, 2]) (Arr NdArray [3, 4]) (Arr NdArray [5, 6]))
          (Instance Cartesian3 (Arr NdArray [1, 2, 3]) (Arr NdArray [4, 5, 6]) (Arr NdArray [7, 8, 9]))
     = Inl ValueError \<and>
   sub id (Instance Cartesian3 (Arr NdArray [1, 2]) (Arr NdArray [3, 4]) (Arr NdArray [5, 6]))
          (Instance Cartesian3 (Arr NdArray [1, 2, 3]) (Arr NdArray [4, 5, 6]) (Arr NdArray [7, 8, 9]))
     = Inl ValueError \<and>
   sub id (Instance Cartesian3 (Arr NdArray [1, 2, 3]) (Arr NdArray [4, 5, 6]) (Arr NdArray [7, 8, 9]))
          (Instance Cartesian3 (Arr NdArray [1]) (Arr NdArray [1]) (Arr NdArray [1]))
     = Inr (Instance Cartesian3 (Arr NdArray [0, 1, 2]) (Arr NdArray [3, 4, 5]) (Arr NdArray [6, 7, 8]))"
proof -
  let ?p2 = "Instance Cartesian3 (Arr NdArray [1, 2]) (Arr NdArray [3, 4]) (Arr NdArray [5, 6 :: real])"
  let ?p3 = "Instance Cartesian3 (Arr NdArray [1, 2, 3]) (Arr NdArray [4, 5, 6]) (Arr NdArray [7, 8, 9 :: real])"
  let ?p1 = "Instance Cartesian3 (Arr NdArray [1]) (Arr NdArray [1]) (Arr NdArray [1 :: real])"
  have 1: "add id ?p2 ?p3 = Inl ValueError \<and> sub id ?p2 ?p3 = Inl ValueError"
    using add_sub_shape_error [of ?p2 ?p3 id] by (simp add: npoints_def)
  have "\<exists>r. sub id ?p3 ?p1 = Inr r"
    using add_sub_shape_error [of ?p3 ?p1 id] by (auto simp: npoints_def same_length_def)
  moreover have "sub id ?p3 ?p1 = Inr (Instance Cartesian3 (Arr NdArray [0, 1, 2])
      (Arr NdArray [3, 4, 5]) (Arr NdArray [6, 7, 8]))"
    by (simp add: sub_def op_zip_def np_subtract_def np_ufunc_def broadcast_def
        class_from_xyz_eq from_xyz_eq convert_NdArray)
  ultimately show ?thesis using 1 by simp
qed

text \<open>
  Claim C6 as stated covers every pair of unequal point counts.  A triple of one point and
  a triple of two points are added without an error: numpy broadcasts the single point.
\<close>

theorem add_broadcasts_single_point:
  "add id (Instance Cartesian3 (Arr NdArray [1]) (Arr NdArray [2]) (Arr NdArray [3]))
          (Instance Cartesian3 (Arr NdArray [10, 20]) (Arr NdArray [30, 40]) (Arr NdArray [50, 60]))
     = Inr (Instance Cartesian3 (Arr NdArray [11, 21]) (Arr NdArray [32, 42]) (Arr NdArray [53, 63])) \<and>
   npoints (Instance Cartesian3 (Arr NdArray [1]) (Arr NdArray [2]) (Arr NdArray [3 :: real])) \<noteq>
   npoints (Instance Cartesian3 (Arr NdArray [10, 20]) (Arr NdArray [30, 40]) (Arr NdArray [50, 60 :: real]))"
  by (simp add: add_def op_zip_def np_add_def np_ufunc_def broadcast_def class_from_xyz_eq
      from_xyz_eq convert_NdArray npoints_def)

subsection \<open>Construction from components\<close>

text \<open>
  Claim C7, as amended: \<^verbatim>\<open>from_xyz\<close> always returns a \<^verbatim>\<open>Cartesian3\<close> whose three
  components are \<^verbatim>\<open>ndarray\<close>s: an input that is an \<^verbatim>\<open>ndarray\<close> is kept as it is, and
  the elements of any other input are converted to \<^verbatim>\<open>float32\<close> one by one.  It compares
  no lengths: each component has the length of its input, so the components of the result
  have one length exactly when the inputs have.
\<close>

theorem from_xyz_coerces_without_length_check:
  "\<exists>p. from_xyz float32 x y z = Inr p \<and> cls p = Cartesian3 \<and>
       kind (xc p) = NdArray \<and> kind (yc p) = NdArray \<and> kind (zc p) = NdArray \<and>
       elems (xc p) = (if kind x = NdArray then elems x else map float32 (elems x)) \<and>
       elems (yc p) = (if kind y = NdArray then elems y else map float32 (elems y)) \<and>
       elems (zc p) = (if kind z = NdArray then elems z else map float32 (elems z)) \<and>
       length (elems (xc p)) = length (elems x) \<and>
       length (elems (yc p)) = length (elems y) \<and>
       length (elems (zc p)) = length (elems z) \<and>
       same_length p = (length (elems y) = length (elems x) \<and> length (elems z) = length (elems x))"
  by (simp add: from_xyz_eq elems_convert length_convert kind_convert same_length_def)

text \<open>
  Claim C7 as stated has \<^verbatim>\<open>from_xyz\<close> fail on inputs of unequal lengths.  On lists of
  lengths 1, 2 and 3 it returns a triple whose components have these three lengths.  (The
  numbers 1, 2 and 3 are \<^verbatim>\<open>float32\<close> numbers: the conversion leaves them as they are.)
\<close>

theorem from_xyz_accepts_unequal_lengths:
  "from_xyz id (Arr PyList [1]) (Arr PyList [1, 2]) (Arr PyList [1, 2, 3 :: real]) =
     Inr (Instance Cartesian3 (Arr NdArray [1]) (Arr NdArray [1, 2]) (Arr NdArray [1, 2, 3])) \<and>
   \<not> same_length (Instance Cartesian3 (Arr NdArray [1]) (Arr NdArray [1, 2])
                    (Arr NdArray [1, 2, 3 :: real]))"
  by (simp add: from_xyz_eq convert_type_if_not_nparray_def same_length_def)

subsection \<open>Segments\<close>

text \<open>
  Claim C8.  For a segment whose two ends have x, y and z of one length and the same
  number of points: \<^verbatim>\<open>seg_length\<close> is, point by point, the Euclidean distance of the
  first end to the second; \<^verbatim>\<open>middle_point\<close> is half the sum of the two ends; and where
  no pair of ends coincides, \<^verbatim>\<open>direct_vector\<close> is the first end minus the second, divided
  by that distance.  For the segment from (0, 0, 0) to (0, 0, 10) this gives the length
  10, the middle point (0, 0, 5) and the direction (0, 0, -1).
\<close>

theorem segment_length_midpoint_direction:
  assumes "same_length p" "same_length q" "npoints q = npoints p"
  shows
    "seg_length float32 (Segment p q) = Inr (Arr Tensor (map2 distance3 (points p) (points q))) \<and>
     middle_point float32 (Segment p q) =
       Inr (of_points (map2 (\<lambda>a b. ((fst a + fst b) / 2, (fst (snd a) + fst (snd b)) / 2,
                                       (snd (snd a) + snd (snd b)) / 2)) (points p) (points q))) \<and>
     (list_all2 (\<lambda>a b. a \<noteq> b) (points p) (points q) \<longrightarrow>
      direct_vector float32 (Segment p q) =
       Inr (of_points (map2 (\<lambda>a b. ((fst a - fst b) / distance3 a b,
                                       (fst (snd a) - fst (snd b)) / distance3 a b,
                                       (snd (snd a) - snd (snd b)) / distance3 a b))
                            (points p) (points q)))) \<and>
     seg_length float32 (Segment (of_points [(0, 0, 0)]) (of_points [(0, 0, 10)])) =
       Inr (Arr Tensor [10]) \<and>
     middle_point float32 (Segment (of_points [(0, 0, 0)]) (of_points [(0, 0, 10)])) =
       Inr (of_points [(0, 0, 5)]) \<and>
     direct_vector float32 (Segment (of_points [(0, 0, 0)]) (of_points [(0, 0, 10)])) =
       Inr (of_points [(0, 0, - 1)])"
proof -
  have sq: "sqrt 100 = 10"
    using real_sqrt_abs [of 10] by simp
  have e: "same_length (of_points [(0, 0, 0)])" "same_length (of_points [(0, 0, 10)])"
    "npoints (of_points [(0, 0, 10)]) = npoints (of_points [(0, 0, 0)])"
    by (simp_all add: same_length_of_points npoints_of_points)
  show ?thesis
    using segment_general [OF assms, of float32] segment_general [OF e, of float32]
    by (simp add: points_of_points distance3_def sq)
qed

text \<open>The theorem at two segments off the axes: from (1, 2, 3) to (4, 6, 3), of length 5,
  and from (0, 3, 0) to (12, 3, 5), of length 13.\<close>

theorem segment_length_midpoint_direction_witness:
  "seg_length id (Segment (of_points [(1, 2, 3), (0, 3, 0)]) (of_points [(4, 6, 3), (12, 3, 5)])) =
     Inr (Arr Tensor [5, 13]) \<and>
   middle_point id (Segment (of_points [(1, 2, 3), (0, 3, 0)]) (of_points [(4, 6, 3), (12, 3, 5)])) =
     Inr (of_points [(5 / 2, 4, 3), (6, 3, 5 / 2)]) \<and>
   direct_vector id (Segment (of_points [(1, 2, 3), (0, 3, 0)]) (of_points [(4, 6, 3), (12, 3, 5)])) =
     Inr (of_points [(- 3 / 5, - 4 / 5, 0), (- 12 / 13, 0, - 5 / 13)])"
proof -
  let ?p = "of_points [(1, 2, 3), (0, 3, 0)]" and ?q = "of_points [(4, 6, 3), (12, 3, 5)]"
  have sq: "sqrt 25 = 5" "sqrt 169 = 13"
    using real_sqrt_abs [of 5] real_sqrt_abs [of 13] by simp_all
  have e: "same_length ?p" "same_length ?q" "npoints ?q = npoints ?p"
    by (simp_all add: same_length_of_points npoints_of_points)
  from segment_length_midpoint_direction [OF e, of id] show ?thesis
    by (simp add: points_of_points distance3_def sq)
qed

subsection \<open>Division by zero\<close>

text \<open>
  Claim C9, on \<open>ieee\<close> values and for every rounding that keeps an infinity or a
  not-a-number non-finite.  For a \<^verbatim>\<open>Vector\<close> whose components have one length,
  \<^verbatim>\<open>norm\<close> and \<^verbatim>\<open>unit\<close> return, and at every point where the norm is zero the three
  components of the unit vector are infinite or not-a-number.  \<^verbatim>\<open>__truediv__\<close> by the
  number zero returns for a triple held in arrays or tensors, and every element of the
  result is infinite or not-a-number.  \<^verbatim>\<open>divide\<close> returns for two triples of the same
  shape, and the result is infinite or not-a-number wherever the divisor is zero.
\<close>

theorem division_by_zero_is_not_an_error:
  assumes "\<forall>v. \<not> is_finite v \<longrightarrow> \<not> is_finite (rounding v)"
  shows
   "(length (elems y) = length (elems x) \<and> length (elems z) = length (elems x) \<longrightarrow>
      (\<exists>n u. Vector_norm rounding (Vector_init x y z) = Inr n \<and>
              Vector_unit rounding (Vector_init x y z) = Inr u \<and>
              cls u = Vector \<and> same_length u \<and> npoints u = length (elems x) \<and>
              length (elems n) = length (elems x) \<and>
              (\<forall>i<length (elems x). elems n ! i = Finite 0 \<longrightarrow>
                 \<not> is_finite (elems (xc u) ! i) \<and> \<not> is_finite (elems (yc u) ! i) \<and>
                 \<not> is_finite (elems (zc u) ! i)))) \<and>
    (kind (xc p) \<noteq> PyList \<and> kind (yc p) \<noteq> PyList \<and> kind (zc p) \<noteq> PyList \<longrightarrow>
      (\<exists>w. truediv p (Finite 0) = Inr w \<and> npoints w = npoints p \<and>
           list_all (\<lambda>v. \<not> is_finite v) (elems (xc w)) \<and>
           list_all (\<lambda>v. \<not> is_finite v) (elems (yc w)) \<and>
           list_all (\<lambda>v. \<not> is_finite v) (elems (zc w)))) \<and>
    (same_length s \<and> same_length t \<and> npoints t = npoints s \<longrightarrow>
      (\<exists>w. Cartesian3_divide float32 s t = Inr w \<and> same_length w \<and> npoints w = npoints s \<and>
           (\<forall>i<npoints s.
              (elems (xc t) ! i = Finite 0 \<longrightarrow> \<not> is_finite (elems (xc w) ! i)) \<and>
              (elems (yc t) ! i = Finite 0 \<longrightarrow> \<not> is_finite (elems (yc w) ! i)) \<and>
              (elems (zc t) ! i = Finite 0 \<longrightarrow> \<not> is_finite (elems (zc w) ! i)))))"
proof (intro conjI impI)
  assume len: "length (elems y) = length (elems x) \<and> length (elems z) = length (elems x)"
  then obtain n where n: "Vector_norm rounding (Vector_init x y z) = Inr (Arr Tensor n)"
    and ln: "length n = length (elems x)"
    using Vector_norm_same_length [of y x z rounding] by auto
  have u: "Vector_unit rounding (Vector_init x y z) =
     Inr (Instance Vector (Arr Tensor (map2 (\<lambda>a b. rounding (a / b)) (elems x) n))
                          (Arr Tensor (map2 (\<lambda>a b. rounding (a / b)) (elems y) n))
                          (Arr Tensor (map2 (\<lambda>a b. rounding (a / b)) (elems z) n)))"
    using len n by (intro Vector_unit_same_length) simp_all
  have nf: "\<not> is_finite (rounding (a / Finite 0))" for a
    using assms divide_zero_not_finite by blast
  show "\<exists>n u. Vector_norm rounding (Vector_init x y z) = Inr n \<and>
              Vector_unit rounding (Vector_init x y z) = Inr u \<and>
              cls u = Vector \<and> same_length u \<and> npoints u = length (elems x) \<and>
              length (elems n) = length (elems x) \<and>
              (\<forall>i<length (elems x). elems n ! i = Finite 0 \<longrightarrow>
                 \<not> is_finite (elems (xc u) ! i) \<and> \<not> is_finite (elems (yc u) ! i) \<and>
                 \<not> is_finite (elems (zc u) ! i))"
    unfolding n u using len ln nf by (simp add: same_length_def npoints_def)
next
  assume "kind (xc p) \<noteq> PyList \<and> kind (yc p) \<noteq> PyList \<and> kind (zc p) \<noteq> PyList"
  then have "truediv p (Finite 0) =
     Inr (Instance Cartesian3 (Arr (kind (xc p)) (map (\<lambda>v. v / Finite 0) (elems (xc p))))
                              (Arr (kind (yc p)) (map (\<lambda>v. v / Finite 0) (elems (yc p))))
                              (Arr (kind (zc p)) (map (\<lambda>v. v / Finite 0) (elems (zc p)))))"
    by (intro truediv_array) simp_all
  then show "\<exists>w. truediv p (Finite 0) = Inr w \<and> npoints w = npoints p \<and>
           list_all (\<lambda>v. \<not> is_finite v) (elems (xc w)) \<and>
           list_all (\<lambda>v. \<not> is_finite v) (elems (yc w)) \<and>
           list_all (\<lambda>v. \<not> is_finite v) (elems (zc w))"
    by (simp add: npoints_def list_all_iff divide_zero_not_finite)
next
  assume a: "same_length s \<and> same_length t \<and> npoints t = npoints s"
  then have "Cartesian3_divide float32 s t =
     Inr (Instance Cartesian3 (Arr NdArray (map2 (/) (elems (xc s)) (elems (xc t))))
                              (Arr NdArray (map2 (/) (elems (yc s)) (elems (yc t))))
                              (Arr NdArray (map2 (/) (elems (zc s)) (elems (zc t)))))"
    unfolding Cartesian3_divide_def np_divide_def by (intro op_zip_np_same_length) simp_all
  with a show "\<exists>w. Cartesian3_divide float32 s t = Inr w \<and> same_length w \<and> npoints w = npoints s \<and>
           (\<forall>i<npoints s.
              (elems (xc t) ! i = Finite 0 \<longrightarrow> \<not> is_finite (elems (xc w) ! i)) \<and>
              (elems (yc t) ! i = Finite 0 \<longrightarrow> \<not> is_finite (elems (yc w) ! i)) \<and>
              (elems (zc t) ! i = Finite 0 \<longrightarrow> \<not> is_finite (elems (zc w) ! i)))"
    by (simp add: same_length_def npoints_def divide_zero_not_finite)
qed

text \<open>
  The theorem with a rounding that underflows below 1/1000, at the vector (1/100, 0, 0):
  its square underflows, the norm is zero and the unit vector is (inf, nan, nan).  Also
  (1, -2, 0) divided by the number 0, and (1, 6, 0) divided by (0, 3, 0).
\<close>

theorem division_by_zero_is_not_an_error_witness:
  "Vector_norm (flush_to_zero (1 / 1000))
     (Vector_init (Arr PyList [Finite (1 / 100)]) (Arr PyList [Finite 0]) (Arr PyList [Finite 0])) =
     Inr (Arr Tensor [Finite 0]) \<and>
   Vector_unit (flush_to_zero (1 / 1000))
     (Vector_init (Arr PyList [Finite (1 / 100)]) (Arr PyList [Finite 0]) (Arr PyList [Finite 0])) =
     Inr (Instance Vector (Arr Tensor [PInf]) (Arr Tensor [NaN]) (Arr Tensor [NaN])) \<and>
   truediv (Instance Cartesian3 (Arr NdArray [Finite 1]) (Arr NdArray [Finite (- 2)])
              (Arr NdArray [Finite 0])) (Finite 0) =
     Inr (Instance Cartesian3 (Arr NdArray [PInf]) (Arr NdArray [NInf]) (Arr NdArray [NaN])) \<and>
   Cartesian3_divide id (Instance Cartesian3 (Arr NdArray [Finite 1]) (Arr NdArray [Finite 6])
              (Arr NdArray [Finite 0]))
             (Instance Cartesian3 (Arr NdArray [Finite 0]) (Arr NdArray [Finite 3])
              (Arr NdArray [Finite 0])) =
     Inr (Instance Cartesian3 (Arr NdArray [PInf]) (Arr NdArray [Finite 2]) (Arr NdArray [NaN]))"
proof -
  let ?r = "flush_to_zero (1 / 1000)"
  let ?x = "Arr PyList [Finite (1 / 100)]" and ?z = "Arr PyList [Finite 0]"
  let ?p = "Instance Cartesian3 (Arr NdArray [Finite 1]) (Arr NdArray [Finite (- 2)])
              (Arr NdArray [Finite 0])"
  let ?a = "Instance Cartesian3 (Arr NdArray [Finite 1]) (Arr NdArray [Finite 6])
              (Arr NdArray [Finite 0])"
  let ?b = "Instance Cartesian3 (Arr NdArray [Finite 0]) (Arr NdArray [Finite 3])
              (Arr NdArray [Finite 0])"
  have keep: "\<forall>v. \<not> is_finite v \<longrightarrow> \<not> is_finite (?r v)"
    by (auto simp: flush_to_zero_def split: ieee.splits)
  have n: "Vector_norm ?r (Vector_init ?x ?z ?z) = Inr (Arr Tensor [Finite 0])"
    by (simp add: Vector_norm_def Vector_init_def convert_to_tensor_def flush_to_zero_def)
  have u: "Vector_unit ?r (Vector_init ?x ?z ?z) =
      Inr (Instance Vector (Arr Tensor [PInf]) (Arr Tensor [NaN]) (Arr Tensor [NaN]))"
    using Vector_unit_same_length [of ?z ?x ?z ?r "[Finite 0]"] n
    by (simp add: flush_to_zero_def)
  have t: "truediv ?p (Finite 0) =
      Inr (Instance Cartesian3 (Arr NdArray [PInf]) (Arr NdArray [NInf]) (Arr NdArray [NaN]))"
    by (simp add: truediv_array)
  have d: "Cartesian3_divide id ?a ?b =
      Inr (Instance Cartesian3 (Arr NdArray [PInf]) (Arr NdArray [Finite 2]) (Arr NdArray [NaN]))"
    by (simp add: Cartesian3_divide_def np_divide_def op_zip_np_same_length same_length_def
        npoints_def)
  from division_by_zero_is_not_an_error [OF keep, where x = ?x and y = ?z and z = ?z
      and p = ?p and s = ?a and t = ?b and ?float32.0 = id] n u t d
  show ?thesis by simp
qed


subsection \<open>The class of a result\<close>

text \<open>
  Claim C10: for two \<^verbatim>\<open>Vector\<close> objects, whatever \<^verbatim>\<open>+\<close> and \<^verbatim>\<open>-\<close> return is of
  class \<^verbatim>\<open>Cartesian3\<close>, and they do return when the operands have the same number of
  points; whatever \<^verbatim>\<open>fmap\<close> returns on a \<^verbatim>\<open>Vector\<close> is of class \<^verbatim>\<open>Vector\<close>, and it
  returns when the mapped function does.
\<close>

theorem vector_add_sub_return_base_class:
  assumes "cls v = Vector" "cls w = Vector"
  shows "(\<forall>r. add float32 v w = Inr r \<longrightarrow> cls r = Cartesian3) \<and>
         (\<forall>r. sub float32 v w = Inr r \<longrightarrow> cls r = Cartesian3) \<and>
         (same_length v \<and> same_length w \<and> npoints v = npoints w \<longrightarrow>
            (\<exists>r. add float32 v w = Inr r) \<and> (\<exists>r. sub float32 v w = Inr r)) \<and>
         (\<forall>r. fmap v f = Inr r \<longrightarrow> cls r = Vector) \<and>
         (\<exists>r. fmap v (\<lambda>a. Inr (g a)) = Inr r)"
proof (intro conjI allI impI)
  fix r assume "add float32 v w = Inr r" then show "cls r = Cartesian3"
    unfolding add_def by (rule op_zip_class)
next
  fix r assume "sub float32 v w = Inr r" then show "cls r = Cartesian3"
    unfolding sub_def by (rule op_zip_class)
next
  assume "same_length v \<and> same_length w \<and> npoints v = npoints w"
  then show "\<exists>r. add float32 v w = Inr r"
    by (simp add: add_def np_add_def op_zip_np_same_length)
next
  assume "same_length v \<and> same_length w \<and> npoints v = npoints w"
  then show "\<exists>r. sub float32 v w = Inr r"
    by (simp add: sub_def np_subtract_def op_zip_np_same_length)
next
  fix r assume "fmap v f = Inr r" then show "cls r = Vector"
    using assms(1) by (simp add: fmap_class)
next
  show "\<exists>r. fmap v (\<lambda>a. Inr (g a)) = Inr r"
    by (simp add: fmap_def)
qed

text \<open>The theorem at the vectors (1, 2, 3) and (4, 5, 6), and at doubling for \<^verbatim>\<open>fmap\<close>.\<close>

theorem vector_add_sub_return_base_class_witness:
  "add id (Vector_init (Arr PyList [1]) (Arr PyList [2]) (Arr PyList [3]))
          (Vector_init (Arr PyList [4]) (Arr PyList [5]) (Arr PyList [6])) =
     Inr (Instance Cartesian3 (Arr NdArray [5]) (Arr NdArray [7]) (Arr NdArray [9])) \<and>
   cls (Instance Cartesian3 (Arr NdArray [5]) (Arr NdArray [7]) (Arr NdArray [9 :: real])) = Cartesian3 \<and>
   fmap (Vector_init (Arr PyList [1]) (Arr PyList [2]) (Arr PyList [3 :: real]))
        (\<lambda>a. py_scalar_op (*) a 2) =
     Inr (Instance Vector (Arr Tensor [2]) (Arr Tensor [4]) (Arr Tensor [6])) \<and>
   cls (Instance Vector (Arr Tensor [2]) (Arr Tensor [4]) (Arr Tensor [6 :: real])) = Vector"
proof -
  let ?v = "Vector_init (Arr PyList [1]) (Arr PyList [2]) (Arr PyList [3 :: real])"
  let ?w = "Vector_init (Arr PyList [4]) (Arr PyList [5]) (Arr PyList [6 :: real])"
  have a: "add id ?v ?w = Inr (Instance Cartesian3 (Arr NdArray [5]) (Arr NdArray [7]) (Arr NdArray [9]))"
    by (simp add: add_def np_add_def op_zip_np_same_length same_length_def npoints_def
        Vector_init_def convert_to_tensor_def)
  have f: "fmap ?v (\<lambda>a. py_scalar_op (*) a 2) =
      Inr (Instance Vector (Arr Tensor [2]) (Arr Tensor [4]) (Arr Tensor [6]))"
    by (simp add: fmap_def Vector_init_def convert_to_tensor_def py_scalar_op_def construct_def)
  have c: "cls ?v = Vector" "cls ?w = Vector"
    by (simp_all add: Vector_init_def)
  from vector_add_sub_return_base_class [OF c, of id "\<lambda>a. py_scalar_op (*) a 2" id] a f
  show ?thesis by simp
qed

end
